theory Spec2Isabelle
  imports Main
begin

section \<open>The execution engine of \<^verbatim>\<open>utils/code_executor.py\<close>\<close>

text \<open>
  The class \<^verbatim>\<open>CodeExecutor\<close> runs submitted Python source in a child interpreter.
  Its methods talk to the operating system (a temporary file, a child process, the
  current directory) and to the interpreter's own parser. The embedding makes both
  explicit:
  \<^item> what the operating system and the standard library answer during one call is a
    value of type \<open>env\<close>, given to the method;
  \<^item> what the method leaves behind (files in the temporary directory, calls that start
    a child process) is a value of type \<open>world\<close>, threaded through the method;
  \<^item> a Python exception is a value: a method that can raise returns \<open>pyexc + 'a\<close>.
  Only exceptions derived from \<^verbatim>\<open>Exception\<close> are modelled; \<^verbatim>\<open>KeyboardInterrupt\<close> and
  \<^verbatim>\<open>SystemExit\<close> are outside the model.
\<close>

subsection \<open>Python values\<close>

text \<open>
  A Python \<^verbatim>\<open>str\<close> is a sequence of Unicode code points; \<^verbatim>\<open>len\<close> and slicing count
  code points. Literals of the source are ASCII and written through \<open>ascii\<close>.
\<close>

type_synonym pystr = "nat list"

definition ascii :: "string \<Rightarrow> pystr" where
  "ascii s = map of_char s"

datatype pyval = PNone | PBool bool | PInt int | PStr pystr

text \<open>The result dictionaries have literal keys; a missing key is \<open>None\<close> of the map.\<close>

type_synonym pydict = "string \<rightharpoonup> pyval"

text \<open>\<^verbatim>\<open>str(n)\<close> for an integer: decimal digits, a minus sign when negative.\<close>

function str_nat :: "nat \<Rightarrow> pystr" where
  "str_nat n = (if n < 10 then [48 + n] else str_nat (n div 10) @ [48 + n mod 10])"
  by pat_completeness auto
termination
  by (relation "measure id") auto

definition str_int :: "int \<Rightarrow> pystr" where
  "str_int i = (if i < 0 then 45 # str_nat (nat (- i)) else str_nat (nat i))"

text \<open>
  \<^verbatim>\<open>str.isspace\<close> of one character (the code points CPython's
  \<^verbatim>\<open>_PyUnicode_IsWhitespace\<close> accepts), and \<^verbatim>\<open>str.strip()\<close> without arguments.
\<close>

definition py_isspace :: "nat \<Rightarrow> bool" where
  "py_isspace c \<longleftrightarrow>
     (9 \<le> c \<and> c \<le> 13) \<or> (28 \<le> c \<and> c \<le> 32) \<or> c = 133 \<or> c = 160 \<or> c = 5760 \<or>
     (8192 \<le> c \<and> c \<le> 8202) \<or> c = 8232 \<or> c = 8233 \<or> c = 8239 \<or> c = 8287 \<or> c = 12288"

definition strip :: "pystr \<Rightarrow> pystr" where
  "strip s = rev (dropWhile py_isspace (rev (dropWhile py_isspace s)))"

subsection \<open>Exceptions\<close>

text \<open>
  An exception has a class (with the attributes the handlers read) and the text
  \<^verbatim>\<open>str(e)\<close>. \<open>TimeoutExpired\<close> carries the partial \<^verbatim>\<open>output\<close> and \<^verbatim>\<open>stderr\<close> that
  \<^verbatim>\<open>subprocess\<close> attaches to it; \<open>SyntaxError\<close> carries \<^verbatim>\<open>msg\<close>, \<^verbatim>\<open>lineno\<close> and
  \<^verbatim>\<open>offset\<close> (the last two may be \<^verbatim>\<open>None\<close>). \<open>SubprocessError\<close> is any other subclass
  of \<^verbatim>\<open>subprocess.SubprocessError\<close>, \<open>OSError\<close> any \<^verbatim>\<open>OSError\<close>, and \<open>OtherException\<close>
  any other subclass of \<^verbatim>\<open>Exception\<close> (\<^verbatim>\<open>TypeError\<close>, \<^verbatim>\<open>ValueError\<close>,
  \<^verbatim>\<open>UnicodeEncodeError\<close>, ...).
\<close>

datatype exc_class =
    TimeoutExpired pystr pystr
  | SubprocessError
  | OSError
  | SyntaxError pystr "int option" "int option"
  | OtherException

datatype pyexc = Exc (cls: exc_class) (str_of: pystr)

subsection \<open>The environment of one call, and the world it changes\<close>

type_synonym path = pystr

record completed_process =
  returncode :: int
  stdout :: pystr
  stderr :: pystr

text \<open>
  \<^verbatim>\<open>tempfile.NamedTemporaryFile(mode='w', suffix='.py', delete=False)\<close> followed by
  \<^verbatim>\<open>temp_file.write(code)\<close> and the close at the end of the \<^verbatim>\<open>with\<close> block: the file is
  created and written; or the creation raises (no usable temporary directory); or the
  file exists and the write or the close raises (the text cannot be encoded in the
  locale's encoding, the disk is full).
\<close>

datatype temp_outcome =
    TempCreated path
  | TempCreateFailed pyexc
  | TempWriteFailed path pyexc

text \<open>
  \<^verbatim>\<open>os.unlink(path)\<close>: the file is removed; or \<^verbatim>\<open>FileNotFoundError\<close> is raised because
  the file is already gone (the child may have removed it); or another \<^verbatim>\<open>OSError\<close> is
  raised (\<^verbatim>\<open>PermissionError\<close>, a file still locked by another process) and the file stays.
\<close>

datatype unlink_outcome = Unlinked | FileNotFound | UnlinkFailed

record env =
  sys_executable :: pystr
  temp_file :: temp_outcome
  getcwd :: "pyexc + path"
  redirected_stdout :: pystr
  redirected_stderr :: pystr
  subprocess_run :: "pyexc + completed_process"
  unlink :: unlink_outcome
  popen_spawn :: "pyexc + unit"
  communicate :: "pyexc + completed_process"
  compile_builtin :: "pystr \<Rightarrow> pyexc + unit"

text \<open>
  \<open>files\<close>: the paths that exist in the temporary directory. \<open>runs\<close>: the argument
  vector of every call that starts a child process (\<^verbatim>\<open>subprocess.run\<close>,
  \<^verbatim>\<open>subprocess.Popen\<close>), oldest first.
\<close>

record world =
  files :: "path set"
  runs :: "pystr list list"

subsection \<open>\<^verbatim>\<open>CodeExecutor\<close>\<close>

record code_executor =
  timeout :: int
  max_output_size :: nat

text \<open>\<^verbatim>\<open>__init__\<close>: ten seconds, ten thousand characters.\<close>

definition init :: code_executor where
  "init = \<lparr>timeout = 10, max_output_size = 10000\<rparr>"

text \<open>
  \<^verbatim>\<open>_run_code(self, file_path)\<close>. The arguments of \<^verbatim>\<open>subprocess.run\<close> are evaluated
  first (\<^verbatim>\<open>os.getcwd()\<close> can raise), then the child is run. The two \<^verbatim>\<open>StringIO\<close>
  buffers hold what the coordinator itself printed while the redirection was active.
  The three handlers are tried in the source's order.
\<close>

definition run_code :: "code_executor \<Rightarrow> env \<Rightarrow> path \<Rightarrow> world \<Rightarrow> pydict \<times> world" where
  "run_code self e file_path w =
     (let handlers = (\<lambda>x. case cls x of
            TimeoutExpired po pe \<Rightarrow>
              [''output'' \<mapsto> PStr [],
               ''error'' \<mapsto> PStr (ascii ''Code execution timed out after ''
                                    @ str_int (timeout self) @ ascii '' seconds'')]
          | SubprocessError \<Rightarrow>
              [''output'' \<mapsto> PStr [],
               ''error'' \<mapsto> PStr (ascii ''Subprocess error: '' @ str_of x)]
          | _ \<Rightarrow>
              [''output'' \<mapsto> PStr [],
               ''error'' \<mapsto> PStr (ascii ''Execution error: '' @ str_of x)])
      in case getcwd e of
           Inl x \<Rightarrow> (handlers x, w)
         | Inr cwd \<Rightarrow>
            (let w1 = w\<lparr>runs := runs w @ [[sys_executable e, file_path]]\<rparr>
             in case subprocess_run e of
                  Inl x \<Rightarrow> (handlers x, w1)
                | Inr result \<Rightarrow>
                   (let combined_output = redirected_stdout e @ stdout result;
                        combined_error = redirected_stderr e @ stderr result;
                        combined_output =
                          (if length combined_output > max_output_size self
                           then take (max_output_size self) combined_output
                                @ ascii ''\<newline>... (output truncated)''
                           else combined_output);
                        combined_error =
                          (if length combined_error > max_output_size self
                           then take (max_output_size self) combined_error
                                @ ascii ''\<newline>... (error truncated)''
                           else combined_error)
                    in if returncode result \<noteq> 0
                       then ([''output'' \<mapsto> PStr combined_output,
                              ''error'' \<mapsto> PStr (if combined_error = []
                                                   then ascii ''Code execution failed''
                                                   else combined_error),
                              ''return_code'' \<mapsto> PInt (returncode result)], w1)
                       else ([''output'' \<mapsto> PStr combined_output,
                              ''error'' \<mapsto> PNone,
                              ''return_code'' \<mapsto> PInt (returncode result)], w1))))"

text \<open>
  \<^verbatim>\<open>os.unlink\<close> inside \<^verbatim>\<open>try: ... except OSError: pass\<close>: both errors are swallowed.
\<close>

definition unlink_quietly :: "env \<Rightarrow> path \<Rightarrow> world \<Rightarrow> world" where
  "unlink_quietly e p w =
     (case unlink e of
        Unlinked \<Rightarrow> w\<lparr>files := files w - {p}\<rparr>
      | FileNotFound \<Rightarrow> w\<lparr>files := files w - {p}\<rparr>
      | UnlinkFailed \<Rightarrow> w)"

text \<open>
  \<^verbatim>\<open>execute(self, code)\<close>. The temporary file is created and written before the
  \<^verbatim>\<open>try\<close> statement, so an exception there leaves \<open>execute\<close> as it is; the
  \<^verbatim>\<open>finally\<close> clause runs after \<^verbatim>\<open>_run_code\<close>, which itself never raises.
\<close>

definition execute :: "code_executor \<Rightarrow> env \<Rightarrow> pystr \<Rightarrow> world \<Rightarrow> (pyexc + pydict) \<times> world" where
  "execute self e code w =
     (if strip code = []
      then (Inr [''output'' \<mapsto> PStr [], ''error'' \<mapsto> PStr (ascii ''No code provided'')], w)
      else case temp_file e of
             TempCreateFailed x \<Rightarrow> (Inl x, w)
           | TempWriteFailed p x \<Rightarrow> (Inl x, w\<lparr>files := insert p (files w)\<rparr>)
           | TempCreated temp_file_path \<Rightarrow>
               (let w1 = w\<lparr>files := insert temp_file_path (files w)\<rparr>;
                    (result, w2) = run_code self e temp_file_path w1
                in (Inr result, unlink_quietly e temp_file_path w2)))"

text \<open>
  The keyword parameters of \<^verbatim>\<open>subprocess.Popen.__init__\<close> (CPython, \<^verbatim>\<open>Lib/subprocess.py\<close>;
  the standard library is not part of this repository). A call with any other keyword
  raises \<^verbatim>\<open>TypeError\<close> before the constructor's body runs, so before any process exists.
\<close>

definition Popen_parameters :: "string list" where
  "Popen_parameters =
     [''args'', ''bufsize'', ''executable'', ''stdin'', ''stdout'', ''stderr'',
      ''preexec_fn'', ''close_fds'', ''shell'', ''cwd'', ''env'', ''universal_newlines'',
      ''startupinfo'', ''creationflags'', ''restore_signals'', ''start_new_session'',
      ''pass_fds'', ''user'', ''group'', ''extra_groups'', ''encoding'', ''errors'',
      ''text'', ''umask'', ''pipesize'', ''process_group'']"

definition Popen :: "env \<Rightarrow> pystr list \<Rightarrow> string list \<Rightarrow> world \<Rightarrow> (pyexc + unit) \<times> world" where
  "Popen e args kwargs w =
     (case filter (\<lambda>k. k \<notin> set Popen_parameters) kwargs of
        k # ks \<Rightarrow>
          (Inl (Exc OtherException
                  (ascii ''Popen.__init__() got an unexpected keyword argument ''
                   @ ascii ([CHR 0x27] @ k @ [CHR 0x27]))), w)
      | [] \<Rightarrow>
          (let w1 = w\<lparr>runs := runs w @ [args]\<rparr>
           in case popen_spawn e of
                Inl x \<Rightarrow> (Inl x, w1)
              | Inr process \<Rightarrow> (Inr process, w1)))"

text \<open>
  \<^verbatim>\<open>execute_interactive(self, code)\<close>: the constructor is called with the keywords
  \<^verbatim>\<open>stdin\<close>, \<^verbatim>\<open>stdout\<close>, \<^verbatim>\<open>stderr\<close>, \<^verbatim>\<open>text\<close> and \<^verbatim>\<open>timeout\<close>; then
  \<^verbatim>\<open>process.communicate\<close> gives the two streams and the return code.
\<close>

definition execute_interactive :: "code_executor \<Rightarrow> env \<Rightarrow> pystr \<Rightarrow> world \<Rightarrow> pydict \<times> world" where
  "execute_interactive self e code w =
     (let handlers = (\<lambda>x. case cls x of
            TimeoutExpired po pe \<Rightarrow>
              [''output'' \<mapsto> PStr [],
               ''error'' \<mapsto> PStr (ascii ''Interactive execution timed out after ''
                                    @ str_int (timeout self) @ ascii '' seconds'')]
          | _ \<Rightarrow>
              [''output'' \<mapsto> PStr [],
               ''error'' \<mapsto> PStr (ascii ''Interactive execution error: '' @ str_of x)])
      in case Popen e [sys_executable e, ascii ''-i'', ascii ''-c'', code]
                [''stdin'', ''stdout'', ''stderr'', ''text'', ''timeout''] w of
           (Inl x, w1) \<Rightarrow> (handlers x, w1)
         | (Inr process, w1) \<Rightarrow>
            (case communicate e of
               Inl x \<Rightarrow> (handlers x, w1)
             | Inr p \<Rightarrow>
                 if returncode p \<noteq> 0
                 then ([''output'' \<mapsto> PStr (stdout p),
                        ''error'' \<mapsto> PStr (if stderr p = []
                                             then ascii ''Interactive execution failed''
                                             else stderr p),
                        ''return_code'' \<mapsto> PInt (returncode p)], w1)
                 else ([''output'' \<mapsto> PStr (stdout p),
                        ''error'' \<mapsto> PNone,
                        ''return_code'' \<mapsto> PInt (returncode p)], w1)))"

text \<open>
  \<^verbatim>\<open>validate_code(self, code)\<close>. The builtin \<^verbatim>\<open>compile(code, '<string>', 'exec')\<close> is the
  interpreter's parser and compiler, a function of the source text; it is a field of the
  environment. The f-string prints \<^verbatim>\<open>e.lineno\<close>, which may be \<^verbatim>\<open>None\<close>.
\<close>

definition opt_int :: "int option \<Rightarrow> pyval" where
  "opt_int x = (case x of None \<Rightarrow> PNone | Some i \<Rightarrow> PInt i)"

definition str_opt_int :: "int option \<Rightarrow> pystr" where
  "str_opt_int x = (case x of None \<Rightarrow> ascii ''None'' | Some i \<Rightarrow> str_int i)"

definition validate_code :: "env \<Rightarrow> pystr \<Rightarrow> world \<Rightarrow> pydict \<times> world" where
  "validate_code e code w =
     (case compile_builtin e code of
        Inr u \<Rightarrow> ([''valid'' \<mapsto> PBool True, ''error'' \<mapsto> PNone], w)
      | Inl x \<Rightarrow>
         (case cls x of
            SyntaxError msg lineno offset \<Rightarrow>
              ([''valid'' \<mapsto> PBool False,
                ''error'' \<mapsto> PStr (ascii ''Syntax error: '' @ msg @ ascii '' at line ''
                                     @ str_opt_int lineno),
                ''line'' \<mapsto> opt_int lineno,
                ''offset'' \<mapsto> opt_int offset], w)
          | _ \<Rightarrow>
              ([''valid'' \<mapsto> PBool False,
                ''error'' \<mapsto> PStr (ascii ''Validation error: '' @ str_of x)], w)))"

subsection \<open>Reading a result, and a sample environment\<close>

text \<open>The value a call returned under a key; nothing when the call raised.\<close>

definition returned :: "(pyexc + pydict) \<times> world \<Rightarrow> string \<Rightarrow> pyval option" where
  "returned r k = (case fst r of Inl x \<Rightarrow> None | Inr d \<Rightarrow> d k)"

definition empty_world :: world where
  "empty_world = \<lparr>files = {}, runs = []\<rparr>"

definition tmp_path :: path where
  "tmp_path = ascii ''/tmp/tmpk3v9x1qa.py''"

text \<open>
  A run in which everything works: the child prints \<^verbatim>\<open>hi\<close> and exits with 0. The parser
  rejects the one source of the specification's example as CPython does (\<^verbatim>\<open>invalid syntax\<close>,
  line 1, offset 7) and accepts everything else.
\<close>

definition sample_env :: env where
  "sample_env =
     \<lparr>sys_executable = ascii ''/usr/bin/python3'',
      temp_file = TempCreated tmp_path,
      getcwd = Inr (ascii ''/srv/editor''),
      redirected_stdout = [],
      redirected_stderr = [],
      subprocess_run = Inr \<lparr>returncode = 0, stdout = ascii ''hi\<newline>'', stderr = []\<rparr>,
      unlink = Unlinked,
      popen_spawn = Inr (),
      communicate = Inr \<lparr>returncode = 0, stdout = [], stderr = []\<rparr>,
      compile_builtin = (\<lambda>s. if s = ascii ''def f(:\<newline>  pass''
                              then Inl (Exc (SyntaxError (ascii ''invalid syntax'') (Some 1) (Some 7))
                                            (ascii ''invalid syntax (<string>, line 1)''))
                              else Inr ())\<rparr>"

text \<open>
  A run whose child writes 10001 characters to each stream and exits with 1.
\<close>

definition noisy_env :: env where
  "noisy_env = sample_env\<lparr>subprocess_run :=
      Inr \<lparr>returncode = 1, stdout = replicate 10001 97, stderr = replicate 10001 97\<rparr>\<rparr>"

text \<open>A run whose child never ends and is killed at the timeout.\<close>

definition stuck_env :: env where
  "stuck_env = sample_env\<lparr>subprocess_run :=
      Inl (Exc (TimeoutExpired [] []) (ascii ''timed out after 10 seconds''))\<rparr>"

text \<open>
  The source of the specification's example, which the parser of \<open>sample_env\<close> rejects,
  and a run of it: the child interpreter reports the syntax error and exits with 1.
\<close>

definition broken_source :: pystr where
  "broken_source = ascii ''def f(:\<newline>  pass''"

definition broken_env :: env where
  "broken_env = sample_env\<lparr>subprocess_run :=
      Inr \<lparr>returncode = 1, stdout = [], stderr = ascii ''SyntaxError: invalid syntax''\<rparr>\<rparr>"

text \<open>
  A source that cannot be written to the temporary file: it holds the lone surrogate
  U+D800, which UTF-8 does not encode, so \<^verbatim>\<open>temp_file.write\<close> raises
  \<^verbatim>\<open>UnicodeEncodeError\<close> after the file was created.
\<close>

definition unencodable_env :: env where
  "unencodable_env = sample_env\<lparr>temp_file :=
      TempWriteFailed tmp_path (Exc OtherException (ascii ''surrogates not allowed''))\<rparr>"

text \<open>
  A child that terminated by itself: its exit status, and what decoding the bytes it wrote
  to each stream gives (\<^verbatim>\<open>text=True\<close>): the text, or the \<^verbatim>\<open>UnicodeDecodeError\<close> of the
  locale's codec. \<open>run_result\<close> is what \<^verbatim>\<open>subprocess.run\<close> answers for such a child. It
  waits for the child first and decodes afterwards, standard output before standard
  error, so a stream that does not decode makes it raise although the child has ended.
\<close>

record terminated_child =
  exit_status :: int
  stdout_decoded :: "pyexc + pystr"
  stderr_decoded :: "pyexc + pystr"

definition run_result :: "terminated_child \<Rightarrow> pyexc + completed_process" where
  "run_result c =
     (case stdout_decoded c of
        Inl x \<Rightarrow> Inl x
      | Inr out \<Rightarrow>
         (case stderr_decoded c of
            Inl x \<Rightarrow> Inl x
          | Inr err \<Rightarrow> Inr \<lparr>returncode = exit_status c, stdout = out, stderr = err\<rparr>))"

text \<open>
  A child that writes the single byte 255 to its standard output and exits with 0. No
  UTF-8 sequence starts with that byte.
\<close>

definition garbled_child :: terminated_child where
  "garbled_child =
     \<lparr>exit_status = 0,
      stdout_decoded = Inl (Exc OtherException (ascii ''invalid start byte'')),
      stderr_decoded = Inr []\<rparr>"

definition garbled_env :: env where
  "garbled_env = sample_env\<lparr>subprocess_run := run_result garbled_child\<rparr>"

section \<open>Properties\<close>

subsection \<open>Auxiliary facts\<close>


lemma strip_blank: "list_all py_isspace s \<Longrightarrow> strip s = []"
proof -
  assume "list_all py_isspace s"
  then have nothing_left: "dropWhile py_isspace s = []"
    by (induction s) auto
  show ?thesis
    unfolding strip_def nothing_left by simp
qed

lemma strip_nonblank: "strip s = [] \<Longrightarrow> list_all py_isspace s"
proof -
  assume a: "strip s = []"
  have "dropWhile py_isspace (rev (dropWhile py_isspace s)) = []"
    using a by (simp add: strip_def)
  then have "\<forall>x\<in>set (dropWhile py_isspace s). py_isspace x"
    by simp
  moreover have "dropWhile py_isspace s \<noteq> [] \<Longrightarrow> \<not> py_isspace (hd (dropWhile py_isspace s))"
    by (rule hd_dropWhile)
  ultimately have "dropWhile py_isspace s = []"
    by (cases "dropWhile py_isspace s") auto
  then show ?thesis by (simp add: list_all_iff)
qed

lemma execute_created:
  assumes "strip code \<noteq> []" and "temp_file e = TempCreated p"
  shows "execute self e code w =
           (Inr (fst (run_code self e p (w\<lparr>files := insert p (files w)\<rparr>))),
            unlink_quietly e p (snd (run_code self e p (w\<lparr>files := insert p (files w)\<rparr>))))"
  using assms by (simp add: execute_def Let_def split: prod.splits)

lemma run_code_world:
  "snd (run_code self e p w) = (case getcwd e of Inl x \<Rightarrow> w
      | Inr cwd \<Rightarrow> w\<lparr>runs := runs w @ [[sys_executable e, p]]\<rparr>)"
  by (simp add: run_code_def Let_def split: sum.splits)

lemma run_code_files: "files (snd (run_code self e p w)) = files w"
  by (simp add: run_code_world split: sum.splits)

lemma run_code_completed:
  assumes "getcwd e = Inr cwd" and "subprocess_run e = Inr r"
  shows "fst (run_code self e p w) =
     (let co = redirected_stdout e @ stdout r;
          ce = redirected_stderr e @ stderr r;
          out = (if max_output_size self < length co
                 then take (max_output_size self) co @ ascii ''\<newline>... (output truncated)''
                 else co);
          err = (if max_output_size self < length ce
                 then take (max_output_size self) ce @ ascii ''\<newline>... (error truncated)''
                 else ce)
      in if returncode r \<noteq> 0
         then [''output'' \<mapsto> PStr out,
               ''error'' \<mapsto> PStr (if err = [] then ascii ''Code execution failed'' else err),
               ''return_code'' \<mapsto> PInt (returncode r)]
         else [''output'' \<mapsto> PStr out, ''error'' \<mapsto> PNone,
               ''return_code'' \<mapsto> PInt (returncode r)])"
  using assms by (simp add: run_code_def Let_def)

lemma run_code_raised:
  assumes "getcwd e = Inr cwd" and "subprocess_run e = Inl x"
  shows "fst (run_code self e p w) =
     (case cls x of
        TimeoutExpired po pe \<Rightarrow>
          [''output'' \<mapsto> PStr [],
           ''error'' \<mapsto> PStr (ascii ''Code execution timed out after ''
                                @ str_int (timeout self) @ ascii '' seconds'')]
      | SubprocessError \<Rightarrow>
          [''output'' \<mapsto> PStr [],
           ''error'' \<mapsto> PStr (ascii ''Subprocess error: '' @ str_of x)]
      | _ \<Rightarrow>
          [''output'' \<mapsto> PStr [],
           ''error'' \<mapsto> PStr (ascii ''Execution error: '' @ str_of x)])"
  using assms by (simp add: run_code_def Let_def)

subsection \<open>Blank source\<close>

text \<open>
  C4. A source that is empty or consists of whitespace only is rejected: \<open>execute\<close>
  returns the dictionary with the empty output and the error \<^verbatim>\<open>No code provided\<close>, which
  has no \<^verbatim>\<open>return_code\<close> key, and the world is the one it started in: no temporary file was
  created and no child process was started.
\<close>
theorem execute_blank_source:
  assumes "list_all py_isspace code"
  shows "execute self e code w =
           (Inr [''output'' \<mapsto> PStr [], ''error'' \<mapsto> PStr (ascii ''No code provided'')], w)"
  using strip_blank [OF assms] by (simp add: execute_def)

theorem execute_blank_source_witness:
  "list_all py_isspace [32, 10, 9] \<and>
   execute init sample_env [32, 10, 9] empty_world =
     (Inr [''output'' \<mapsto> PStr [], ''error'' \<mapsto> PStr (ascii ''No code provided'')], empty_world)"
proof -
  have h: "list_all py_isspace [32, 10, 9]"
    by (simp add: py_isspace_def)
  show ?thesis
    using h execute_blank_source [OF h, of init sample_env empty_world] by simp
qed

subsection \<open>Normal termination of the child\<close>

text \<open>
  What the claim C5 says of every child that terminates normally: the result has its exit
  code, and no error when that code is 0. Here the child exits with 0 after writing a byte
  that does not decode; \<^verbatim>\<open>subprocess.run\<close> raises, the catch-all handler answers, and the
  result has an error and no \<^verbatim>\<open>return_code\<close> key.
\<close>
theorem normal_exit_without_return_code:
  "exit_status garbled_child = 0 \<and>
   returned (execute init garbled_env (ascii ''import os; os.write(1, bytes([255]))'') empty_world)
      ''return_code'' = None \<and>
   returned (execute init garbled_env (ascii ''import os; os.write(1, bytes([255]))'') empty_world)
      ''error'' = Some (PStr (ascii ''Execution error: invalid start byte'')) \<and>
   returned (execute init garbled_env (ascii ''import os; os.write(1, bytes([255]))'') empty_world)
      ''error'' \<noteq> Some PNone"
proof -
  let ?code = "ascii ''import os; os.write(1, bytes([255]))''"
  let ?x = "Exc OtherException (ascii ''invalid start byte'')"
  have h1: "strip ?code \<noteq> []"
    by (simp add: strip_def ascii_def py_isspace_def)
  have h2: "temp_file garbled_env = TempCreated tmp_path"
    by (simp add: garbled_env_def sample_env_def)
  have h3: "getcwd garbled_env = Inr (ascii ''/srv/editor'')"
    by (simp add: garbled_env_def sample_env_def)
  have h4: "subprocess_run garbled_env = Inl ?x"
    by (simp add: garbled_env_def run_result_def garbled_child_def)
  have result: "fst (execute init garbled_env ?code empty_world) =
      Inr [''output'' \<mapsto> PStr [],
           ''error'' \<mapsto> PStr (ascii ''Execution error: '' @ ascii ''invalid start byte'')]"
    by (simp add: execute_created [OF h1 h2] run_code_raised [OF h3 h4])
  have msg: "ascii ''Execution error: '' @ ascii ''invalid start byte''
      = ascii ''Execution error: invalid start byte''"
    by (simp add: ascii_def)
  show ?thesis
    by (simp add: returned_def result msg garbled_child_def)
qed

text \<open>
  C5, as the code has it. When \<^verbatim>\<open>subprocess.run\<close> returns a completed process (the child
  terminated by itself and what it wrote was decoded), the result carries its return
  code. With the return code 0 the \<^verbatim>\<open>error\<close> field is \<^verbatim>\<open>None\<close>; with any other return
  code it is the captured standard error, cut at \<open>max_output_size\<close> characters, or the
  fixed text \<^verbatim>\<open>Code execution failed\<close> when nothing was captured.
\<close>
theorem execute_normal_exit:
  assumes "strip code \<noteq> []" and "temp_file e = TempCreated p"
    and "getcwd e = Inr cwd" and "subprocess_run e = Inr r"
  shows "returned (execute self e code w) ''return_code'' = Some (PInt (returncode r)) \<and>
         (returncode r = 0 \<longrightarrow> returned (execute self e code w) ''error'' = Some PNone) \<and>
         (returncode r \<noteq> 0 \<longrightarrow>
            returned (execute self e code w) ''error'' =
              Some (PStr (let ce = redirected_stderr e @ stderr r;
                              err = (if max_output_size self < length ce
                                     then take (max_output_size self) ce
                                          @ ascii ''\<newline>... (error truncated)''
                                     else ce)
                          in if err = [] then ascii ''Code execution failed'' else err)))"
  using assms(3,4)
  by (simp add: returned_def execute_created [OF assms(1,2)]
      run_code_completed [OF assms(3,4)] Let_def)

theorem execute_normal_exit_witness:
  "strip (ascii ''raise ValueError(1)'') \<noteq> [] \<and>
   temp_file (sample_env\<lparr>subprocess_run :=
       Inr \<lparr>returncode = 1, stdout = [], stderr = ascii ''ValueError: 1''\<rparr>\<rparr>) = TempCreated tmp_path \<and>
   returned (execute init
       (sample_env\<lparr>subprocess_run :=
          Inr \<lparr>returncode = 1, stdout = [], stderr = ascii ''ValueError: 1''\<rparr>\<rparr>)
       (ascii ''raise ValueError(1)'') empty_world) ''return_code'' = Some (PInt 1) \<and>
   returned (execute init
       (sample_env\<lparr>subprocess_run :=
          Inr \<lparr>returncode = 1, stdout = [], stderr = ascii ''ValueError: 1''\<rparr>\<rparr>)
       (ascii ''raise ValueError(1)'') empty_world) ''error'' = Some (PStr (ascii ''ValueError: 1''))"
proof -
  let ?r = "\<lparr>returncode = 1, stdout = [], stderr = ascii ''ValueError: 1''\<rparr>"
  let ?e = "sample_env\<lparr>subprocess_run := Inr ?r\<rparr>"
  have h1: "strip (ascii ''raise ValueError(1)'') \<noteq> []"
    by (simp add: strip_def ascii_def py_isspace_def)
  have h2: "temp_file ?e = TempCreated tmp_path"
    by (simp add: sample_env_def)
  have h3: "getcwd ?e = Inr (ascii ''/srv/editor'')"
    by (simp add: sample_env_def)
  have h4: "subprocess_run ?e = Inr ?r"
    by simp
  show ?thesis
    using h1 h2 execute_normal_exit [OF h1 h2 h3 h4, of init empty_world]
    by (simp add: init_def sample_env_def ascii_def)
qed

subsection \<open>Timeout\<close>

text \<open>
  What the claim C2 promises beyond the code: the output captured before the kill. The
  child had printed \<^verbatim>\<open>1\<close> when it was killed, and the \<^verbatim>\<open>output\<close> field is empty.
\<close>
theorem timeout_drops_partial_output:
  "returned (execute init
          (sample_env\<lparr>subprocess_run :=
             Inl (Exc (TimeoutExpired (ascii ''1'') []) (ascii ''timed out after 10 seconds''))\<rparr>)
          (ascii ''while True: print(1)'') empty_world) ''output'' = Some (PStr []) \<and>
   returned (execute init
          (sample_env\<lparr>subprocess_run :=
             Inl (Exc (TimeoutExpired (ascii ''1'') []) (ascii ''timed out after 10 seconds''))\<rparr>)
          (ascii ''while True: print(1)'') empty_world) ''output'' \<noteq> Some (PStr (ascii ''1''))"
proof -
  let ?x = "Exc (TimeoutExpired (ascii ''1'') []) (ascii ''timed out after 10 seconds'')"
  let ?e = "sample_env\<lparr>subprocess_run := Inl ?x\<rparr>"
  have h1: "strip (ascii ''while True: print(1)'') \<noteq> []"
    by (simp add: strip_def ascii_def py_isspace_def)
  have h2: "temp_file ?e = TempCreated tmp_path"
    by (simp add: sample_env_def)
  have h3: "getcwd ?e = Inr (ascii ''/srv/editor'')"
    by (simp add: sample_env_def)
  have h4: "subprocess_run ?e = Inl ?x"
    by simp
  have "returned (execute init ?e (ascii ''while True: print(1)'') empty_world) ''output''
          = Some (PStr [])"
    by (simp add: returned_def execute_created [OF h1 h2] run_code_raised [OF h3 h4])
  then show ?thesis
    by (simp add: ascii_def)
qed

text \<open>
  C2, as the code has it. When \<^verbatim>\<open>subprocess.run\<close> raises \<^verbatim>\<open>TimeoutExpired\<close>, the result
  has exactly two keys: the \<^verbatim>\<open>error\<close> text names the limit in seconds, and \<^verbatim>\<open>output\<close> is
  the empty string whatever the exception carried. There is no \<^verbatim>\<open>return_code\<close> key.
\<close>
theorem execute_timeout:
  assumes "strip code \<noteq> []" and "temp_file e = TempCreated p"
    and "getcwd e = Inr cwd" and "subprocess_run e = Inl (Exc (TimeoutExpired po pe) s)"
  shows "fst (execute self e code w) =
           Inr [''output'' \<mapsto> PStr [],
                ''error'' \<mapsto> PStr (ascii ''Code execution timed out after ''
                                     @ str_int (timeout self) @ ascii '' seconds'')]"
  by (simp add: execute_created [OF assms(1,2)] run_code_raised [OF assms(3,4)])

theorem execute_timeout_witness:
  "strip (ascii ''while True: print(1)'') \<noteq> [] \<and>
   fst (execute init
          (sample_env\<lparr>subprocess_run :=
             Inl (Exc (TimeoutExpired (ascii ''1'') []) (ascii ''timed out after 10 seconds''))\<rparr>)
          (ascii ''while True: print(1)'') empty_world) =
     Inr [''output'' \<mapsto> PStr [],
          ''error'' \<mapsto> PStr (ascii ''Code execution timed out after 10 seconds'')]"
proof -
  let ?x = "Exc (TimeoutExpired (ascii ''1'') []) (ascii ''timed out after 10 seconds'')"
  let ?e = "sample_env\<lparr>subprocess_run := Inl ?x\<rparr>"
  have h1: "strip (ascii ''while True: print(1)'') \<noteq> []"
    by (simp add: strip_def ascii_def py_isspace_def)
  have h2: "temp_file ?e = TempCreated tmp_path"
    by (simp add: sample_env_def)
  have h3: "getcwd ?e = Inr (ascii ''/srv/editor'')"
    by (simp add: sample_env_def)
  have h4: "subprocess_run ?e = Inl ?x"
    by simp
  have ten: "str_int (timeout init) = ascii ''10''"
    by (simp add: init_def str_int_def ascii_def)
  show ?thesis
    using h1 execute_timeout [OF h1 h2 h3 h4, of init empty_world]
    by (simp add: ten ascii_def)
qed

subsection \<open>Truncation of the captured streams\<close>

lemma truncated_length:
  "length (if n < length xs then take n xs @ m else xs) \<le> n + length m"
  by simp

lemma truncated_nonempty:
  "xs \<noteq> [] \<Longrightarrow> m \<noteq> [] \<Longrightarrow> (if n < length xs then take n xs @ m else xs) \<noteq> []"
  by simp

lemma noisy_run:
  "fst (execute init noisy_env (ascii ''print(1)'') empty_world) =
     Inr [''output'' \<mapsto> PStr (replicate 10000 97 @ ascii ''\<newline>... (output truncated)''),
          ''error'' \<mapsto> PStr (replicate 10000 97 @ ascii ''\<newline>... (error truncated)''),
          ''return_code'' \<mapsto> PInt 1]"
proof -
  have h1: "strip (ascii ''print(1)'') \<noteq> []"
    by (simp add: strip_def ascii_def py_isspace_def)
  have h2: "temp_file noisy_env = TempCreated tmp_path"
    by (simp add: noisy_env_def sample_env_def)
  have h3: "getcwd noisy_env = Inr (ascii ''/srv/editor'')"
    by (simp add: noisy_env_def sample_env_def)
  have h4: "subprocess_run noisy_env =
      Inr \<lparr>returncode = 1, stdout = replicate 10001 97, stderr = replicate 10001 97\<rparr>"
    by (simp add: noisy_env_def)
  have h5: "redirected_stdout noisy_env = []" "redirected_stderr noisy_env = []"
    by (simp_all add: noisy_env_def sample_env_def)
  have m: "max_output_size init = 10000"
    by (simp add: init_def)
  show ?thesis
    by (simp add: execute_created [OF h1 h2] run_code_completed [OF h3 h4] h5 m Let_def)
qed

text \<open>
  What the claim C3 says of the marker: one fixed marker for both streams. Both streams
  are cut after the same 10000 characters here, and what follows the prefix is
  \<^verbatim>\<open>... (output truncated)\<close> in one and \<^verbatim>\<open>... (error truncated)\<close> in the other.
\<close>
theorem markers_differ:
  "returned (execute init noisy_env (ascii ''print(1)'') empty_world) ''output''
     = Some (PStr (replicate 10000 97 @ ascii ''\<newline>... (output truncated)'')) \<and>
   returned (execute init noisy_env (ascii ''print(1)'') empty_world) ''error''
     = Some (PStr (replicate 10000 97 @ ascii ''\<newline>... (error truncated)'')) \<and>
   ascii ''\<newline>... (output truncated)'' \<noteq> ascii ''\<newline>... (error truncated)''"
  by (simp add: returned_def noisy_run) (simp add: ascii_def)

text \<open>
  C3, as the code has it. Lengths are counted in characters, as \<^verbatim>\<open>len\<close> counts them.
  The \<^verbatim>\<open>output\<close> field is the captured standard output when that has at most
  \<open>max_output_size\<close> characters, and otherwise its first \<open>max_output_size\<close> characters
  followed once by the 23 characters of the output marker. When the return code is not 0
  and something was captured on standard error, the \<^verbatim>\<open>error\<close> field is the captured
  standard error cut in the same way, with its own marker of 22 characters. So neither
  field is longer than \<open>max_output_size\<close> plus the length of its marker.
\<close>
theorem execute_truncation:
  assumes "strip code \<noteq> []" and "temp_file e = TempCreated p"
    and "getcwd e = Inr cwd" and "subprocess_run e = Inr r"
  shows "let n = max_output_size self;
             co = redirected_stdout e @ stdout r;
             ce = redirected_stderr e @ stderr r;
             out = (if n < length co
                    then take n co @ ascii ''\<newline>... (output truncated)'' else co);
             err = (if n < length ce
                    then take n ce @ ascii ''\<newline>... (error truncated)'' else ce)
         in returned (execute self e code w) ''output'' = Some (PStr out) \<and>
            length out \<le> n + 23 \<and>
            (returncode r \<noteq> 0 \<and> ce \<noteq> [] \<longrightarrow>
               returned (execute self e code w) ''error'' = Some (PStr err)) \<and>
            length err \<le> n + 22"
proof -
  let ?n = "max_output_size self"
  let ?co = "redirected_stdout e @ stdout r"
  let ?ce = "redirected_stderr e @ stderr r"
  let ?out = "if ?n < length ?co
              then take ?n ?co @ ascii ''\<newline>... (output truncated)'' else ?co"
  let ?err = "if ?n < length ?ce
              then take ?n ?ce @ ascii ''\<newline>... (error truncated)'' else ?ce"
  note run = run_code_completed [OF assms(3,4)]
  have out: "returned (execute self e code w) ''output'' = Some (PStr ?out)"
    by (simp add: returned_def execute_created [OF assms(1,2)] run Let_def)
  have out_len: "length ?out \<le> ?n + 23"
    by (rule order_trans [OF truncated_length]) (simp add: ascii_def)
  have err: "returned (execute self e code w) ''error'' = Some (PStr ?err)"
    if "returncode r \<noteq> 0" and "?ce \<noteq> []"
  proof -
    have "?err \<noteq> []"
      by (rule truncated_nonempty [OF that(2)]) (simp add: ascii_def)
    then show ?thesis
      using that(1)
      by (simp add: returned_def execute_created [OF assms(1,2)] run Let_def)
  qed
  have err_len: "length ?err \<le> ?n + 22"
    by (rule order_trans [OF truncated_length]) (simp add: ascii_def)
  show ?thesis
    unfolding Let_def using out out_len err err_len by blast
qed

theorem execute_truncation_witness:
  "strip (ascii ''print(1)'') \<noteq> [] \<and>
   returned (execute init noisy_env (ascii ''print(1)'') empty_world) ''output''
     = Some (PStr (replicate 10000 97 @ ascii ''\<newline>... (output truncated)'')) \<and>
   length (replicate 10000 (97::nat) @ ascii ''\<newline>... (output truncated)'') \<le> 10000 + 23 \<and>
   returned (execute init noisy_env (ascii ''print(1)'') empty_world) ''error''
     = Some (PStr (replicate 10000 97 @ ascii ''\<newline>... (error truncated)'')) \<and>
   length (replicate 10000 (97::nat) @ ascii ''\<newline>... (error truncated)'') \<le> 10000 + 22"
proof -
  have h1: "strip (ascii ''print(1)'') \<noteq> []"
    by (simp add: strip_def ascii_def py_isspace_def)
  have h2: "temp_file noisy_env = TempCreated tmp_path"
    by (simp add: noisy_env_def sample_env_def)
  have h3: "getcwd noisy_env = Inr (ascii ''/srv/editor'')"
    by (simp add: noisy_env_def sample_env_def)
  have h4: "subprocess_run noisy_env =
      Inr \<lparr>returncode = 1, stdout = replicate 10001 97, stderr = replicate 10001 97\<rparr>"
    by (simp add: noisy_env_def)
  have h5: "redirected_stdout noisy_env = []" "redirected_stderr noisy_env = []"
    by (simp_all add: noisy_env_def sample_env_def)
  have m: "max_output_size init = 10000"
    by (simp add: init_def)
  show ?thesis
    using h1 execute_truncation [OF h1 h2 h3 h4, of init empty_world]
    by (simp add: h5 m Let_def)
qed

subsection \<open>The temporary file\<close>

lemma unlink_quietly_runs: "runs (unlink_quietly e p w) = runs w"
  by (simp add: unlink_quietly_def split: unlink_outcome.splits)

lemma unlink_quietly_files:
  "files (unlink_quietly e p w) = (if unlink e = UnlinkFailed then files w else files w - {p})"
  by (simp add: unlink_quietly_def split: unlink_outcome.splits)

text \<open>
  What the claim C6 says of every exit path: the file is gone when \<open>execute\<close> returns.
  Here the child ends normally, \<^verbatim>\<open>os.unlink\<close> raises an \<^verbatim>\<open>OSError\<close> that the
  \<^verbatim>\<open>finally\<close> clause swallows, \<open>execute\<close> returns a success, and the file is still there.
\<close>
theorem temp_file_left_behind:
  "returned (execute init (sample_env\<lparr>unlink := UnlinkFailed\<rparr>) (ascii ''print(1)'') empty_world)
      ''error'' = Some PNone \<and>
   tmp_path \<in> files (snd (execute init (sample_env\<lparr>unlink := UnlinkFailed\<rparr>)
                              (ascii ''print(1)'') empty_world))"
proof -
  let ?e = "sample_env\<lparr>unlink := UnlinkFailed\<rparr>"
  have h1: "strip (ascii ''print(1)'') \<noteq> []"
    by (simp add: strip_def ascii_def py_isspace_def)
  have h2: "temp_file ?e = TempCreated tmp_path"
    by (simp add: sample_env_def)
  have h3: "getcwd ?e = Inr (ascii ''/srv/editor'')"
    by (simp add: sample_env_def)
  have h4: "subprocess_run ?e = Inr \<lparr>returncode = 0, stdout = ascii ''hi\<newline>'', stderr = []\<rparr>"
    by (simp add: sample_env_def)
  have "returned (execute init ?e (ascii ''print(1)'') empty_world) ''error'' = Some PNone"
    by (simp add: returned_def execute_created [OF h1 h2] run_code_completed [OF h3 h4] Let_def)
  moreover have "tmp_path \<in> files (snd (execute init ?e (ascii ''print(1)'') empty_world))"
    by (simp add: execute_created [OF h1 h2] unlink_quietly_files run_code_files)
  ultimately show ?thesis
    by simp
qed

text \<open>
  C6, as the code has it. Once the temporary file is created and written, \<open>execute\<close>
  returns a result on every path through \<^verbatim>\<open>_run_code\<close> (nothing is assumed of
  \<^verbatim>\<open>os.getcwd\<close> or \<^verbatim>\<open>subprocess.run\<close>: normal end, non-zero exit, timeout, failure to
  spawn, any other exception) and calls \<^verbatim>\<open>os.unlink\<close> on the file before it returns.
  Unless that call fails with an \<^verbatim>\<open>OSError\<close> that leaves the file in place, the file is
  gone and the other files are as they were; if it fails so, the error is swallowed and
  the file stays.
\<close>
theorem execute_removes_temp_file:
  assumes "strip code \<noteq> []" and "temp_file e = TempCreated p"
  shows "(\<exists>d. fst (execute self e code w) = Inr d) \<and>
         (unlink e \<noteq> UnlinkFailed \<longrightarrow> files (snd (execute self e code w)) = files w - {p}) \<and>
         (unlink e = UnlinkFailed \<longrightarrow> files (snd (execute self e code w)) = insert p (files w))"
  by (simp add: execute_created [OF assms] unlink_quietly_files run_code_files)

theorem execute_removes_temp_file_witness:
  "strip (ascii ''while True: pass'') \<noteq> [] \<and>
   temp_file stuck_env = TempCreated tmp_path \<and>
   unlink stuck_env \<noteq> UnlinkFailed \<and>
   (\<exists>d. fst (execute init stuck_env (ascii ''while True: pass'') empty_world) = Inr d) \<and>
   tmp_path \<notin> files (snd (execute init stuck_env (ascii ''while True: pass'') empty_world))"
proof -
  have h1: "strip (ascii ''while True: pass'') \<noteq> []"
    by (simp add: strip_def ascii_def py_isspace_def)
  have h2: "temp_file stuck_env = TempCreated tmp_path"
    by (simp add: stuck_env_def sample_env_def)
  have h3: "unlink stuck_env \<noteq> UnlinkFailed"
    by (simp add: stuck_env_def sample_env_def)
  show ?thesis
    using h1 h2 h3 execute_removes_temp_file [OF h1 h2, of init empty_world]
    by simp
qed

subsection \<open>Failure to start the child\<close>



subsection \<open>Execution does not validate\<close>

lemma run_code_ignores_parser:
  "run_code self (e\<lparr>compile_builtin := c\<rparr>) p w = run_code self e p w"
  by (simp add: run_code_def Let_def split: sum.splits)

lemma unlink_quietly_ignores_parser:
  "unlink_quietly (e\<lparr>compile_builtin := c\<rparr>) p w = unlink_quietly e p w"
  by (simp add: unlink_quietly_def)

lemma execute_ignores_parser:
  "execute self (e\<lparr>compile_builtin := c\<rparr>) code w = execute self e code w"
  by (simp add: execute_def run_code_ignores_parser unlink_quietly_ignores_parser
      split: temp_outcome.splits)

lemma broken_source_rejected:
  "compile_builtin sample_env broken_source =
     Inl (Exc (SyntaxError (ascii ''invalid syntax'') (Some 1) (Some 7))
              (ascii ''invalid syntax (<string>, line 1)''))"
  by (simp add: sample_env_def broken_source_def)

text \<open>
  C7. \<open>execute\<close> has no validation step. For a source that is not blank and that
  \<open>validate_code\<close> rejects, the child is still started on the temporary file; when the
  child exits with a non-zero code the result carries that code and, as its error, what
  the child wrote to standard error. Whatever the parser would answer, \<open>execute\<close>
  does the same: it never consults it.
\<close>
theorem execute_without_validation:
  assumes "strip code \<noteq> []" and "temp_file e = TempCreated p"
    and "getcwd e = Inr cwd" and "subprocess_run e = Inr r" and "returncode r \<noteq> 0"
    and "fst (validate_code e code w) ''valid'' = Some (PBool False)"
  shows "runs (snd (execute self e code w)) = runs w @ [[sys_executable e, p]] \<and>
         returned (execute self e code w) ''return_code'' = Some (PInt (returncode r)) \<and>
         returned (execute self e code w) ''error'' =
           Some (PStr (let ce = redirected_stderr e @ stderr r;
                           err = (if max_output_size self < length ce
                                  then take (max_output_size self) ce
                                       @ ascii ''\<newline>... (error truncated)''
                                  else ce)
                       in if err = [] then ascii ''Code execution failed'' else err)) \<and>
         (\<forall>c. execute self (e\<lparr>compile_builtin := c\<rparr>) code w = execute self e code w)"
proof -
  have "runs (snd (execute self e code w)) = runs w @ [[sys_executable e, p]]"
    using assms(3)
    by (simp add: execute_created [OF assms(1,2)] unlink_quietly_runs run_code_world)
  moreover have "returned (execute self e code w) ''return_code'' = Some (PInt (returncode r))"
    using assms(5)
    by (simp add: returned_def execute_created [OF assms(1,2)]
        run_code_completed [OF assms(3,4)] Let_def)
  moreover have "returned (execute self e code w) ''error'' =
           Some (PStr (let ce = redirected_stderr e @ stderr r;
                           err = (if max_output_size self < length ce
                                  then take (max_output_size self) ce
                                       @ ascii ''\<newline>... (error truncated)''
                                  else ce)
                       in if err = [] then ascii ''Code execution failed'' else err))"
    using assms(5)
    by (simp add: returned_def execute_created [OF assms(1,2)]
        run_code_completed [OF assms(3,4)] Let_def)
  ultimately show ?thesis
    by (simp add: execute_ignores_parser)
qed

theorem execute_without_validation_witness:
  "strip broken_source \<noteq> [] \<and>
   fst (validate_code broken_env broken_source empty_world) ''valid'' = Some (PBool False) \<and>
   runs (snd (execute init broken_env broken_source empty_world))
     = [[ascii ''/usr/bin/python3'', tmp_path]] \<and>
   returned (execute init broken_env broken_source empty_world) ''return_code'' = Some (PInt 1) \<and>
   returned (execute init broken_env broken_source empty_world) ''error''
     = Some (PStr (ascii ''SyntaxError: invalid syntax''))"
proof -
  let ?r = "\<lparr>returncode = 1, stdout = [], stderr = ascii ''SyntaxError: invalid syntax''\<rparr>"
  have h1: "strip broken_source \<noteq> []"
    by (simp add: broken_source_def strip_def ascii_def py_isspace_def)
  have h2: "temp_file broken_env = TempCreated tmp_path"
    by (simp add: broken_env_def sample_env_def)
  have h3: "getcwd broken_env = Inr (ascii ''/srv/editor'')"
    by (simp add: broken_env_def sample_env_def)
  have h4: "subprocess_run broken_env = Inr ?r"
    by (simp add: broken_env_def)
  have h5: "returncode ?r \<noteq> 0"
    by simp
  have c: "compile_builtin broken_env broken_source = compile_builtin sample_env broken_source"
    by (simp add: broken_env_def)
  have h6: "fst (validate_code broken_env broken_source empty_world) ''valid'' = Some (PBool False)"
    by (simp add: validate_code_def c broken_source_rejected)
  have env: "sys_executable broken_env = ascii ''/usr/bin/python3''"
    "redirected_stderr broken_env = []"
    by (simp_all add: broken_env_def sample_env_def)
  have m: "max_output_size init = 10000" "runs empty_world = []"
    by (simp_all add: init_def empty_world_def)
  have short: "\<not> 10000 < length (ascii ''SyntaxError: invalid syntax'')"
    "ascii ''SyntaxError: invalid syntax'' \<noteq> []"
    by (simp_all add: ascii_def)
  show ?thesis
    using h1 h6 execute_without_validation [OF h1 h2 h3 h4 h5 h6, of init]
    by (simp add: env m short Let_def)
qed

subsection \<open>Validation\<close>



subsection \<open>Interactive execution\<close>

text \<open>
  C10. \<open>execute_interactive\<close> never succeeds: the constructor of \<^verbatim>\<open>Popen\<close> is given the
  keyword \<^verbatim>\<open>timeout\<close>, which it does not have, so it raises before any process exists, and
  the handler turns the exception into an error result. The world is unchanged.
\<close>
theorem execute_interactive_never_succeeds:
  "execute_interactive self e code w =
     ([''output'' \<mapsto> PStr [],
       ''error'' \<mapsto> PStr (ascii ''Interactive execution error: ''
                            @ ascii ''Popen.__init__() got an unexpected keyword argument ''
                            @ [39] @ ascii ''timeout'' @ [39])], w) \<and>
   fst (execute_interactive self e code w) ''error'' \<noteq> Some PNone"
  by (simp add: execute_interactive_def Popen_def Popen_parameters_def ascii_def)

subsection \<open>Exceptions that leave \<open>execute\<close>\<close>

text \<open>
  C1. The claim is that \<open>execute\<close> never raises on a source that is not empty. The
  temporary file is written before the \<^verbatim>\<open>try\<close> statement: for the source that consists of
  the lone surrogate U+D800 the write raises, the exception leaves \<open>execute\<close>, no
  dictionary is returned, and the file that was created stays behind.
\<close>
theorem execute_raises_when_write_fails:
  "strip [55296] \<noteq> [] \<and>
   execute init unencodable_env [55296] empty_world =
     (Inl (Exc OtherException (ascii ''surrogates not allowed'')),
      \<lparr>files = {tmp_path}, runs = []\<rparr>)"
  by (simp add: execute_def unencodable_env_def strip_def py_isspace_def empty_world_def)

text \<open>
  Once the temporary file is written, \<open>execute\<close> does return a dictionary, and its
  \<^verbatim>\<open>error\<close> field is \<^verbatim>\<open>None\<close> or a string that is not empty.
\<close>

lemma execute_result_well_formed:
  assumes "temp_file e = TempCreated p"
  shows "\<exists>d. fst (execute self e code w) = Inr d \<and>
             (d ''error'' = Some PNone \<or> (\<exists>m. m \<noteq> [] \<and> d ''error'' = Some (PStr m)))"
proof (cases "strip code = []")
  case True
  then show ?thesis
    by (simp add: execute_def ascii_def)
next
  case False
  have "d ''error'' = Some PNone \<or> (\<exists>m. m \<noteq> [] \<and> d ''error'' = Some (PStr m))"
    if "d = fst (run_code self e p w')" for d w'
    unfolding that
    by (simp add: run_code_def Let_def ascii_def split: sum.splits exc_class.splits)
  then show ?thesis
    by (simp add: execute_created [OF False assms])
qed

end
